theory Spec2Isabelle
  imports Complex_Main "HOL-Library.AList"
begin

section \<open>Values held by the cells of the listings table\<close>

text \<open>
  The cleaning script \<^verbatim>\<open>script/preprocessing.py\<close> works on a pandas table whose cells
  are Python floats, Python strings, or the missing marker NaN.

  A float is modelled as an exact real number, or one of the two infinities that a
  division by zero produces. NaN is not a number of the model: it is the missing marker
  \<open>NA\<close> of a cell, which is how \<^verbatim>\<open>pd.isna\<close> reads it. Rounding to binary64, overflow and
  the sign of zero are not modelled.

  The model follows the cells. It leaves out what pandas and numpy decide from the type
  of a whole column (the \<^verbatim>\<open>.str\<close> accessor refuses a column that holds no text, and
  \<^verbatim>\<open>np.log1p\<close> refuses a column of integers too large for a machine word), and the
  progress lines that the script prints.
\<close>

datatype pynum = Fin real | PInf | NInf

datatype cell = NA | Num pynum | Str string

datatype error = KeyError string | ValueError

text \<open>An arithmetic result that may be NaN is a \<open>pynum option\<close>; \<open>None\<close> is NaN.\<close>

definition cell_of :: "pynum option \<Rightarrow> cell" where
  "cell_of r = (case r of None \<Rightarrow> NA | Some x \<Rightarrow> Num x)"

definition isna :: "cell \<Rightarrow> bool" where
  "isna c = (c = NA)"

definition notna :: "cell \<Rightarrow> bool" where
  "notna c = (c \<noteq> NA)"

fun py_ge0 :: "pynum \<Rightarrow> bool" where
  "py_ge0 (Fin x) = (0 \<le> x)"
| "py_ge0 PInf = True"
| "py_ge0 NInf = False"

fun py_lt0 :: "pynum \<Rightarrow> bool" where
  "py_lt0 (Fin x) = (x < 0)"
| "py_lt0 PInf = False"
| "py_lt0 NInf = True"

fun py_gt :: "pynum \<Rightarrow> real \<Rightarrow> bool" where
  "py_gt (Fin x) b = (b < x)"
| "py_gt PInf b = True"
| "py_gt NInf b = False"

fun py_lt :: "pynum \<Rightarrow> real \<Rightarrow> bool" where
  "py_lt (Fin x) b = (x < b)"
| "py_lt PInf b = False"
| "py_lt NInf b = True"

fun py_le :: "pynum \<Rightarrow> real \<Rightarrow> bool" where
  "py_le (Fin x) b = (x \<le> b)"
| "py_le PInf b = False"
| "py_le NInf b = True"

text \<open>Float subtraction, division and multiplication, with the IEEE rules for infinities.\<close>

fun py_sub :: "pynum \<Rightarrow> pynum \<Rightarrow> pynum option" where
  "py_sub (Fin x) (Fin y) = Some (Fin (x - y))"
| "py_sub (Fin x) PInf = Some NInf"
| "py_sub (Fin x) NInf = Some PInf"
| "py_sub PInf PInf = None"
| "py_sub PInf _ = Some PInf"
| "py_sub NInf NInf = None"
| "py_sub NInf _ = Some NInf"

fun py_truediv :: "pynum \<Rightarrow> pynum \<Rightarrow> pynum option" where
  "py_truediv (Fin x) (Fin y) =
     (if y \<noteq> 0 then Some (Fin (x / y))
      else if 0 < x then Some PInf
      else if x < 0 then Some NInf
      else None)"
| "py_truediv (Fin x) PInf = Some (Fin 0)"
| "py_truediv (Fin x) NInf = Some (Fin 0)"
| "py_truediv PInf (Fin y) = Some (if 0 \<le> y then PInf else NInf)"
| "py_truediv NInf (Fin y) = Some (if 0 \<le> y then NInf else PInf)"
| "py_truediv PInf _ = None"
| "py_truediv NInf _ = None"

fun py_mul :: "pynum \<Rightarrow> pynum \<Rightarrow> pynum option" where
  "py_mul (Fin x) (Fin y) = Some (Fin (x * y))"
| "py_mul (Fin x) PInf = (if 0 < x then Some PInf else if x < 0 then Some NInf else None)"
| "py_mul (Fin x) NInf = (if 0 < x then Some NInf else if x < 0 then Some PInf else None)"
| "py_mul PInf (Fin y) = (if 0 < y then Some PInf else if y < 0 then Some NInf else None)"
| "py_mul NInf (Fin y) = (if 0 < y then Some NInf else if y < 0 then Some PInf else None)"
| "py_mul PInf PInf = Some PInf"
| "py_mul PInf NInf = Some NInf"
| "py_mul NInf PInf = Some NInf"
| "py_mul NInf NInf = Some PInf"

text \<open>\<^verbatim>\<open>Series.round(2)\<close>: scale by 100, round half to even, scale back.\<close>

definition rint :: "real \<Rightarrow> int" where
  "rint x =
     (let f = \<lfloor>x\<rfloor>; d = x - of_int f
      in if d < 1 / 2 then f else if 1 / 2 < d then f + 1 else if even f then f else f + 1)"

definition round2 :: "real \<Rightarrow> real" where
  "round2 x = of_int (rint (x * 100)) / 100"

fun py_round2 :: "pynum \<Rightarrow> pynum" where
  "py_round2 (Fin x) = Fin (round2 x)"
| "py_round2 PInf = PInf"
| "py_round2 NInf = NInf"

text \<open>\<^verbatim>\<open>np.log1p\<close>: minus infinity at \<open>-1\<close>, NaN below it.\<close>

fun log1p :: "pynum \<Rightarrow> pynum option" where
  "log1p (Fin x) =
     (if - 1 < x then Some (Fin (ln (1 + x))) else if x = - 1 then Some NInf else None)"
| "log1p PInf = Some PInf"
| "log1p NInf = None"

section \<open>Strings and regular expressions\<close>

text \<open>
  A Python string is a list of characters. The characters of the model are the 256 code
  points of Latin-1; among them the class \<^verbatim>\<open>\d\<close> holds the ten ASCII digits only.
\<close>

definition is_digit :: "char \<Rightarrow> bool" where
  "is_digit c = (c \<in> set ''0123456789'')"

definition is_space :: "char \<Rightarrow> bool" where
  "is_space c = (of_char c \<in> {9, 10, 11, 12, 13, 28, 29, 30, 31, 32, 133, 160 :: nat})"

definition strip :: "string \<Rightarrow> string" where
  "strip s = rev (dropWhile is_space (rev (dropWhile is_space s)))"

text \<open>\<^verbatim>\<open>s.replace(c, '')\<close> for a one-character \<open>c\<close>.\<close>

definition replace_char :: "char \<Rightarrow> string \<Rightarrow> string" where
  "replace_char c s = filter (\<lambda>d. d \<noteq> c) s"

text \<open>
  The regular expressions of the script are built from character classes, sequence, the
  optional \<^verbatim>\<open>?\<close> and the greedy \<^verbatim>\<open>*\<close> and \<^verbatim>\<open>+\<close>. \<open>rx_match r s\<close> lists, in the
  order in which a backtracking matcher tries them, the rests of \<open>s\<close> after each way of
  matching \<open>r\<close> at the start of \<open>s\<close>; the match that \<^verbatim>\<open>re\<close> reports is the first one.
\<close>

datatype rx = Cls "char \<Rightarrow> bool" | Cat rx rx | Opt rx | Star rx

definition Plus :: "rx \<Rightarrow> rx" where
  "Plus r = Cat r (Star r)"

fun rx_match :: "rx \<Rightarrow> string \<Rightarrow> string list" where
  "rx_match (Cls p) s = (case s of [] \<Rightarrow> [] | c # cs \<Rightarrow> if p c then [cs] else [])"
| "rx_match (Cat r1 r2) s = concat (map (\<lambda>t. rx_match r2 t) (rx_match r1 s))"
| "rx_match (Opt r) s = rx_match r s @ [s]"
| "rx_match (Star r) s =
     concat (map (\<lambda>t. if length t < length s then rx_match (Star r) t else [])
                 (rx_match r s)) @ [s]"

text \<open>\<^verbatim>\<open>re.search(r, s)\<close>: the leftmost position with a match; the result is the matched text.\<close>

fun re_search :: "rx \<Rightarrow> string \<Rightarrow> string option" where
  "re_search r s =
     (case rx_match r s of
        t # _ \<Rightarrow> Some (take (length s - length t) s)
      | [] \<Rightarrow> (case s of [] \<Rightarrow> None | _ # cs \<Rightarrow> re_search r cs))"

text \<open>\<^verbatim>\<open>re.sub(r, '', s)\<close>: every non-empty match, found from left to right, is deleted.\<close>

function re_sub :: "rx \<Rightarrow> string \<Rightarrow> string" where
  "re_sub r s =
     (case s of
        [] \<Rightarrow> []
      | c # cs \<Rightarrow>
          (case rx_match r s of
             [] \<Rightarrow> c # re_sub r cs
           | t # _ \<Rightarrow> if length t < length s then re_sub r t else c # re_sub r cs))"
  by pat_completeness auto
termination
  by (relation "measure (\<lambda>(r, s). length s)") auto

text \<open>The patterns of the script.\<close>

definition rating_pattern :: rx where
  \<comment> \<open>\<^verbatim>\<open>(\d+\.?\d*)\<close>\<close>
  "rating_pattern =
     Cat (Plus (Cls is_digit)) (Cat (Opt (Cls (\<lambda>c. c = CHR ''.''))) (Star (Cls is_digit)))"

definition count_pattern :: rx where
  \<comment> \<open>\<^verbatim>\<open>(\d+)\<close>\<close>
  "count_pattern = Plus (Cls is_digit)"

definition non_numeric_pattern :: rx where
  \<comment> \<open>\<^verbatim>\<open>[^\d\.\-]\<close>\<close>
  "non_numeric_pattern = Cls (\<lambda>c. \<not> (is_digit c \<or> c = CHR ''.'' \<or> c = CHR ''-''))"

definition comma_pattern :: rx where
  \<comment> \<open>\<^verbatim>\<open>,\<close>\<close>
  "comma_pattern = Cls (\<lambda>c. c = CHR '','')"

section \<open>The conversions \<^verbatim>\<open>float\<close>, \<^verbatim>\<open>int\<close> and \<^verbatim>\<open>str\<close>\<close>

definition digit_val :: "char \<Rightarrow> nat" where
  "digit_val c = of_char c - 48"

definition digits_val :: "string \<Rightarrow> nat" where
  "digits_val s = foldl (\<lambda>a c. 10 * a + digit_val c) 0 s"

text \<open>
  \<^verbatim>\<open>float(s)\<close> on a string of digits, points and signs: an optional sign, then digits
  with an optional point, or a point followed by digits. Any other string of these
  characters raises ValueError (\<open>None\<close>). The strings that reach \<^verbatim>\<open>float\<close> in the script
  hold no other character, so exponents, underscores, surrounding blanks and the words
  \<^verbatim>\<open>inf\<close> and \<^verbatim>\<open>nan\<close> are left out.
\<close>

definition float_unsigned :: "string \<Rightarrow> real option" where
  "float_unsigned s =
     (let ip = takeWhile is_digit s; rest = dropWhile is_digit s
      in case rest of
           [] \<Rightarrow> if ip = [] then None else Some (real (digits_val ip))
         | c # fr \<Rightarrow>
             if c = CHR ''.'' \<and> list_all is_digit fr \<and> \<not> (ip = [] \<and> fr = [])
             then Some (real (digits_val ip) + real (digits_val fr) / 10 ^ length fr)
             else None)"

definition py_float :: "string \<Rightarrow> pynum option" where
  "py_float s =
     (case s of
        c # t \<Rightarrow>
          if c = CHR ''-'' then map_option (\<lambda>x. Fin (- x)) (float_unsigned t)
          else if c = CHR ''+'' then map_option Fin (float_unsigned t)
          else map_option Fin (float_unsigned s)
      | [] \<Rightarrow> None)"

text \<open>
  \<^verbatim>\<open>int(s)\<close> on a string of digits and signs. Python integers are unbounded; the
  interpreter's configurable limit on the number of digits is not modelled.
\<close>

definition int_unsigned :: "string \<Rightarrow> int option" where
  "int_unsigned s = (if s \<noteq> [] \<and> list_all is_digit s then Some (int (digits_val s)) else None)"

definition py_int :: "string \<Rightarrow> int option" where
  "py_int s =
     (case s of
        c # t \<Rightarrow>
          if c = CHR ''-'' then map_option uminus (int_unsigned t)
          else if c = CHR ''+'' then int_unsigned t
          else int_unsigned s
      | [] \<Rightarrow> None)"

text \<open>
  \<^verbatim>\<open>str(val)\<close> of a cell that is not missing. A string is itself. How Python prints a
  number is not part of the script: it is the parameter \<open>repr\<close> of every function that
  calls \<^verbatim>\<open>str\<close>.
\<close>

fun py_str :: "(pynum \<Rightarrow> string) \<Rightarrow> cell \<Rightarrow> string" where
  "py_str repr (Str s) = s"
| "py_str repr (Num x) = repr x"
| "py_str repr NA = ''nan''"

section \<open>The per-cell cleaners\<close>

text \<open>
  \<^verbatim>\<open>clean_value\<close>, the local function of \<^verbatim>\<open>clean_numeric_column\<close>. The \<^verbatim>\<open>try\<close> block
  holds the call of \<^verbatim>\<open>float\<close> and the sign test; the bare \<^verbatim>\<open>except\<close> returns NaN.
\<close>

definition try_except :: "error + 'a \<Rightarrow> 'a \<Rightarrow> error + 'a" where
  "try_except body handler = (case body of Inl e \<Rightarrow> Inr handler | Inr v \<Rightarrow> Inr v)"

definition float_or_raise :: "string \<Rightarrow> error + pynum" where
  "float_or_raise s = (case py_float s of None \<Rightarrow> Inl ValueError | Some x \<Rightarrow> Inr x)"

definition int_or_raise :: "string \<Rightarrow> error + int" where
  "int_or_raise s = (case py_int s of None \<Rightarrow> Inl ValueError | Some n \<Rightarrow> Inr n)"

definition clean_value :: "bool \<Rightarrow> cell \<Rightarrow> error + cell" where
  \<comment> \<open>the \<^verbatim>\<open>str\<close> of a string cell is the string itself\<close>
  "clean_value remove_negative val =
     (case val of
        NA \<Rightarrow> Inr NA
      | Num x \<Rightarrow> Inr (if py_ge0 x then Num x else if remove_negative then NA else Num x)
      | Str s \<Rightarrow>
          (let val_str = strip s;
               val_str = re_sub non_numeric_pattern val_str
           in try_except
                (case float_or_raise val_str of
                   Inl e \<Rightarrow> Inl e
                 | Inr num_val \<Rightarrow>
                     if remove_negative \<and> py_lt0 num_val then Inr NA else Inr (Num num_val))
                NA))"

definition extract_rating_from_text :: "(pynum \<Rightarrow> string) \<Rightarrow> cell \<Rightarrow> error + cell" where
  "extract_rating_from_text repr text =
     (if isna text then Inr NA
      else
        (let text_str = py_str repr text
         in case re_search rating_pattern text_str of
              Some m \<Rightarrow>
                (case float_or_raise m of
                   Inl e \<Rightarrow> Inl e
                 | Inr rating0 \<Rightarrow>
                     (let rating =
                        (if py_gt rating0 5
                         then (if py_gt rating0 10 then py_truediv rating0 (Fin 10)
                               else py_truediv rating0 (Fin 2))
                         else Some rating0)
                      in case rating of
                           None \<Rightarrow> Inr NA
                         | Some r \<Rightarrow> Inr (if py_ge0 r \<and> py_le r 5 then Num r else NA)))
            | None \<Rightarrow> Inr NA))"

definition clean_rating :: "(pynum \<Rightarrow> string) \<Rightarrow> cell \<Rightarrow> error + cell" where
  "clean_rating repr val =
     (if isna val then Inr NA
      else
        (let val_str = py_str repr val;
             val_str = re_sub comma_pattern val_str;
             val_str = replace_char (CHR ''-'') val_str
         in case re_search count_pattern val_str of
              Some m \<Rightarrow>
                (case int_or_raise m of
                   Inl e \<Rightarrow> Inl e
                 | Inr n \<Rightarrow> Inr (Num (Fin (of_int n))))
            | None \<Rightarrow> Inr NA))"

section \<open>The table and the cleaning pass\<close>

text \<open>
  A pandas table is a list of named columns, in the order of the file's header; a column is
  the list of its cells, one for each row. Reading a column that the table does not have
  raises KeyError. Assigning a column replaces it in place when the name exists and
  appends it otherwise, which is what \<^const>\<open>AList.update\<close> does.
\<close>

type_synonym series = "cell list"

type_synonym dataframe = "(string \<times> series) list"

definition getcol :: "dataframe \<Rightarrow> string \<Rightarrow> error + series" where
  "getcol df name = (case map_of df name of None \<Rightarrow> Inl (KeyError name) | Some s \<Rightarrow> Inr s)"

definition setcol :: "dataframe \<Rightarrow> string \<Rightarrow> series \<Rightarrow> dataframe" where
  "setcol df name s = AList.update name s df"

definition bindE :: "error + 'a \<Rightarrow> ('a \<Rightarrow> error + 'b) \<Rightarrow> error + 'b" where
  "bindE m f = (case m of Inl e \<Rightarrow> Inl e | Inr x \<Rightarrow> f x)"

text \<open>\<^verbatim>\<open>Series.apply\<close>: the function is called on each cell in turn; an exception ends the pass.\<close>

fun series_apply :: "(cell \<Rightarrow> error + cell) \<Rightarrow> series \<Rightarrow> error + series" where
  "series_apply f [] = Inr []"
| "series_apply f (x # xs) =
     (case f x of
        Inl e \<Rightarrow> Inl e
      | Inr y \<Rightarrow> (case series_apply f xs of Inl e \<Rightarrow> Inl e | Inr ys \<Rightarrow> Inr (y # ys)))"

definition clean_numeric_column :: "series \<Rightarrow> bool \<Rightarrow> error + series" where
  "clean_numeric_column series remove_negative = series_apply (clean_value remove_negative) series"

definition clean_num_ratings :: "(pynum \<Rightarrow> string) \<Rightarrow> series \<Rightarrow> error + series" where
  "clean_num_ratings repr series = series_apply (clean_rating repr) series"

text \<open>
  \<^verbatim>\<open>df.loc[mask, name] = values\<close>: the rows where the mask holds take the new value, the
  other rows keep theirs.
\<close>

definition loc_assign :: "bool list \<Rightarrow> series \<Rightarrow> series \<Rightarrow> series" where
  "loc_assign row_mask values old =
     map (\<lambda>(b, v, x). if b then v else x) (zip row_mask (zip values old))"

text \<open>
  Arithmetic on the cells of a float column. A missing operand gives a missing result. The
  columns it is applied to have been cleaned and hold no string; a string there counts
  as missing.
\<close>

definition discount_value :: "cell \<Rightarrow> cell \<Rightarrow> cell" where
  \<comment> \<open>\<^verbatim>\<open>((mrp - price) / mrp * 100).round(2)\<close>\<close>
  "discount_value price mrp =
     (case (price, mrp) of
        (Num p, Num m) \<Rightarrow>
          cell_of (Option.bind (py_sub m p) (\<lambda>d.
                   Option.bind (py_truediv d m) (\<lambda>q.
                   map_option py_round2 (py_mul q (Fin 100)))))
      | _ \<Rightarrow> NA)"

definition cell_gt :: "cell \<Rightarrow> real \<Rightarrow> bool" where
  "cell_gt c b = (case c of Num x \<Rightarrow> py_gt x b | _ \<Rightarrow> False)"

definition cell_lt :: "cell \<Rightarrow> real \<Rightarrow> bool" where
  "cell_lt c b = (case c of Num x \<Rightarrow> py_lt x b | _ \<Rightarrow> False)"

definition cell_div :: "cell \<Rightarrow> cell \<Rightarrow> cell" where
  "cell_div a b = (case (a, b) of (Num x, Num y) \<Rightarrow> cell_of (py_truediv x y) | _ \<Rightarrow> NA)"

definition quality_value :: "cell \<Rightarrow> cell \<Rightarrow> cell" where
  \<comment> \<open>\<^verbatim>\<open>product_rating * np.log1p(num_ratings)\<close>\<close>
  "quality_value rating n =
     (case (rating, n) of
        (Num r, Num k) \<Rightarrow> cell_of (Option.bind (log1p k) (\<lambda>l. py_mul r l))
      | _ \<Rightarrow> NA)"

definition astype_int :: "bool \<Rightarrow> cell" where
  "astype_int b = Num (Fin (if b then 1 else 0))"

text \<open>\<^verbatim>\<open>.str.split().str[0]\<close>: the first blank-delimited token of a string, missing when
  there is none or when the cell is not a string.\<close>

definition first_token :: "cell \<Rightarrow> cell" where
  "first_token c =
     (case c of
        Str s \<Rightarrow>
          (let t = dropWhile is_space s
           in if t = [] then NA else Str (takeWhile (\<lambda>d. \<not> is_space d) t))
      | _ \<Rightarrow> NA)"

definition fillna :: "cell \<Rightarrow> series \<Rightarrow> series" where
  "fillna v s = map (\<lambda>c. if isna c then v else c) s"

text \<open>The columns that \<^verbatim>\<open>preprocess_data\<close> computes from other columns.\<close>

definition discount_backfill :: "series \<Rightarrow> series \<Rightarrow> series \<Rightarrow> series" where
  "discount_backfill discount price mrp =
     (let row_mask = map (\<lambda>(d, p, m). isna d \<and> notna p \<and> notna m) (zip discount (zip price mrp));
          values = map (\<lambda>(p, m). discount_value p m) (zip price mrp)
      in loc_assign row_mask values discount)"

definition brand_backfill :: "series \<Rightarrow> series \<Rightarrow> series" where
  "brand_backfill brand product_name =
     (let row_mask = map (\<lambda>(b, n). isna b \<and> notna n) (zip brand product_name);
          values = map first_token product_name
      in loc_assign row_mask values brand)"

definition price_mrp_ratio :: "series \<Rightarrow> series \<Rightarrow> series" where
  \<comment> \<open>\<^verbatim>\<open>np.where(price.notna() & mrp.notna() & (mrp > 0), price / mrp, np.nan)\<close>\<close>
  "price_mrp_ratio price mrp =
     map (\<lambda>(p, m). if notna p \<and> notna m \<and> cell_gt m 0 then cell_div p m else NA) (zip price mrp)"

definition suspicious_pricing :: "series \<Rightarrow> series" where
  \<comment> \<open>\<^verbatim>\<open>(price_mrp_ratio < 0.5).astype(int)\<close>\<close>
  "suspicious_pricing ratio = map (\<lambda>r. astype_int (cell_lt r (1 / 2))) ratio"

definition has_review :: "series \<Rightarrow> series" where
  \<comment> \<open>\<^verbatim>\<open>review_text.notna().astype(int)\<close>\<close>
  "has_review review_text = map (\<lambda>t. astype_int (notna t)) review_text"

definition rating_quality_score :: "series \<Rightarrow> series \<Rightarrow> series" where
  "rating_quality_score rating n =
     map (\<lambda>(r, k). if notna r \<and> notna k then quality_value r k else NA) (zip rating n)"

text \<open>The numbered steps of \<^verbatim>\<open>preprocess_data\<close>, each on the table left by the one before.\<close>

definition step_2_1 :: "dataframe \<Rightarrow> error + dataframe" where
  "step_2_1 df =
     bindE (getcol df ''price'') (\<lambda>price.
     bindE (clean_numeric_column price True) (\<lambda>cleaned.
     Inr (setcol df ''price'' cleaned)))"

definition step_2_2 :: "dataframe \<Rightarrow> error + dataframe" where
  "step_2_2 df =
     bindE (getcol df ''mrp'') (\<lambda>mrp.
     bindE (clean_numeric_column mrp True) (\<lambda>cleaned.
     Inr (setcol df ''mrp'' cleaned)))"

definition step_2_3 :: "dataframe \<Rightarrow> error + dataframe" where
  "step_2_3 df =
     bindE (getcol df ''discount_percent'') (\<lambda>discount.
     bindE (getcol df ''price'') (\<lambda>price.
     bindE (getcol df ''mrp'') (\<lambda>mrp.
     Inr (setcol df ''discount_percent'' (discount_backfill discount price mrp)))))"

definition step_2_4 :: "(pynum \<Rightarrow> string) \<Rightarrow> dataframe \<Rightarrow> error + dataframe" where
  "step_2_4 repr df =
     bindE (getcol df ''product_rating'') (\<lambda>rating.
     bindE (series_apply (extract_rating_from_text repr) rating) (\<lambda>cleaned.
     Inr (setcol df ''product_rating'' cleaned)))"

definition step_2_5 :: "(pynum \<Rightarrow> string) \<Rightarrow> dataframe \<Rightarrow> error + dataframe" where
  "step_2_5 repr df =
     bindE (getcol df ''num_ratings'') (\<lambda>n.
     bindE (clean_num_ratings repr n) (\<lambda>cleaned.
     Inr (setcol df ''num_ratings'' cleaned)))"

definition step_2_6 :: "(pynum \<Rightarrow> string) \<Rightarrow> dataframe \<Rightarrow> error + dataframe" where
  "step_2_6 repr df =
     bindE (getcol df ''review_rating'') (\<lambda>rating.
     bindE (series_apply (extract_rating_from_text repr) rating) (\<lambda>cleaned.
     Inr (setcol df ''review_rating'' cleaned)))"

definition step_2_7 :: "dataframe \<Rightarrow> error + dataframe" where
  "step_2_7 df =
     bindE (getcol df ''brand'') (\<lambda>brand.
     bindE (getcol df ''product_name'') (\<lambda>product_name.
     Inr (setcol df ''brand'' (brand_backfill brand product_name))))"

definition step_2_8 :: "dataframe \<Rightarrow> error + dataframe" where
  "step_2_8 df =
     bindE (getcol df ''price'') (\<lambda>price.
     bindE (getcol df ''mrp'') (\<lambda>mrp.
       (let df = setcol df ''price_mrp_ratio'' (price_mrp_ratio price mrp)
        in bindE (getcol df ''price_mrp_ratio'') (\<lambda>ratio.
           (let df = setcol df ''suspicious_pricing'' (suspicious_pricing ratio)
            in bindE (getcol df ''review_text'') (\<lambda>review_text.
               (let df = setcol df ''has_review'' (has_review review_text)
                in bindE (getcol df ''product_rating'') (\<lambda>rating.
                   bindE (getcol df ''num_ratings'') (\<lambda>n.
                   Inr (setcol df ''rating_quality_score''
                          (rating_quality_score rating n)))))))))))"

definition step_2_9 :: "dataframe \<Rightarrow> error + dataframe" where
  "step_2_9 df =
     bindE (getcol df ''platform'') (\<lambda>platform.
       (let df = setcol df ''platform'' (fillna (Str ''Unknown'') platform)
        in bindE (getcol df ''seller_name'') (\<lambda>seller_name.
           Inr (setcol df ''seller_name'' (fillna (Str ''Unknown'') seller_name)))))"

definition preprocess_data :: "(pynum \<Rightarrow> string) \<Rightarrow> dataframe \<Rightarrow> error + dataframe" where
  "preprocess_data repr df =
     bindE (step_2_1 df) (\<lambda>df.
     bindE (step_2_2 df) (\<lambda>df.
     bindE (step_2_3 df) (\<lambda>df.
     bindE (step_2_4 repr df) (\<lambda>df.
     bindE (step_2_5 repr df) (\<lambda>df.
     bindE (step_2_6 repr df) (\<lambda>df.
     bindE (step_2_7 df) (\<lambda>df.
     bindE (step_2_8 df) (\<lambda>df.
     step_2_9 df))))))))"

section \<open>The specification's reading of the cleaners\<close>

text \<open>
  The specification describes the text extractors without regular expressions: the
  rating is read from ``the first decimal-or-integer numeral substring'', the count from
  ``the first run of digit characters''. These definitions follow its words; the
  theorems below compare them with the functions of the script.
\<close>

definition first_numeral :: "string \<Rightarrow> string option" where
  "first_numeral s =
     (let t = dropWhile (\<lambda>c. \<not> is_digit c) s
      in if t = [] then None
         else
           (let ip = takeWhile is_digit t; r = dropWhile is_digit t
            in Some (case r of
                       [] \<Rightarrow> ip
                     | c # r' \<Rightarrow> if c = CHR ''.'' then ip @ c # takeWhile is_digit r' else ip)))"

definition first_digit_run :: "string \<Rightarrow> string option" where
  "first_digit_run s =
     (let t = dropWhile (\<lambda>c. \<not> is_digit c) s
      in if t = [] then None else Some (takeWhile is_digit t))"

text \<open>The number that a numeral \<open>ddd\<close>, \<open>ddd.\<close> or \<open>ddd.ddd\<close> denotes.\<close>

definition numeral_value :: "string \<Rightarrow> real" where
  "numeral_value m =
     (let ip = takeWhile is_digit m; fr = drop (Suc (length ip)) m
      in real (digits_val ip) + real (digits_val fr) / 10 ^ length fr)"

definition rescale :: "real \<Rightarrow> real" where
  "rescale n = (if 5 < n then (if 10 < n then n / 10 else n / 2) else n)"

definition spec_rating :: "(pynum \<Rightarrow> string) \<Rightarrow> cell \<Rightarrow> cell" where
  "spec_rating repr c =
     (if c = NA then NA
      else case first_numeral (py_str repr c) of
             None \<Rightarrow> NA
           | Some m \<Rightarrow>
               (let r = rescale (numeral_value m)
                in if 0 \<le> r \<and> r \<le> 5 then Num (Fin r) else NA))"

definition spec_count :: "(pynum \<Rightarrow> string) \<Rightarrow> cell \<Rightarrow> cell" where
  "spec_count repr c =
     (if c = NA then NA
      else case first_digit_run
                  (filter (\<lambda>d. d \<noteq> CHR '','' \<and> d \<noteq> CHR ''-'') (py_str repr c)) of
             None \<Rightarrow> NA
           | Some m \<Rightarrow> Num (Fin (real (digits_val m))))"

text \<open>The numeric normalizer, rule by rule.\<close>

definition spec_clean :: "bool \<Rightarrow> cell \<Rightarrow> cell" where
  "spec_clean remove_negative c =
     (case c of
        NA \<Rightarrow> NA
      | Num x \<Rightarrow> if py_ge0 x then Num x else if remove_negative then NA else Num x
      | Str s \<Rightarrow>
          (case py_float (filter (\<lambda>d. is_digit d \<or> d = CHR ''.'' \<or> d = CHR ''-'') (strip s)) of
             None \<Rightarrow> NA
           | Some v \<Rightarrow> if remove_negative \<and> py_lt0 v then NA else Num v))"

definition nonneg_cell :: "cell \<Rightarrow> bool" where
  "nonneg_cell c = (case c of NA \<Rightarrow> True | Num x \<Rightarrow> py_ge0 x | Str s \<Rightarrow> False)"

section \<open>Reading tables\<close>

definition col :: "dataframe \<Rightarrow> string \<Rightarrow> series" where
  "col df name = (case map_of df name of None \<Rightarrow> [] | Some s \<Rightarrow> s)"

definition has_column :: "dataframe \<Rightarrow> string \<Rightarrow> bool" where
  "has_column df name = (map_of df name \<noteq> None)"

definition has_columns :: "dataframe \<Rightarrow> string list \<Rightarrow> bool" where
  "has_columns df names = list_all (has_column df) names"


definition input_columns :: "string list" where
  "input_columns =
     [''price'', ''mrp'', ''discount_percent'', ''product_rating'', ''num_ratings'',
      ''review_rating'', ''brand'', ''product_name'', ''review_text'', ''platform'',
      ''seller_name'']"

definition derived_columns :: "string list" where
  "derived_columns =
     [''price_mrp_ratio'', ''suspicious_pricing'', ''has_review'', ''rating_quality_score'']"




definition result_col :: "error + dataframe \<Rightarrow> string \<Rightarrow> error + series" where
  "result_col r name = bindE r (\<lambda>df. getcol df name)"

text \<open>
  What each step does to a table that has the columns the step reads; \<open>cleaned_table\<close> is
  the table that the whole pass then returns.
\<close>

definition total_2_1 :: "dataframe \<Rightarrow> dataframe" where
  "total_2_1 df = setcol df ''price'' (map (spec_clean True) (col df ''price''))"

definition total_2_2 :: "dataframe \<Rightarrow> dataframe" where
  "total_2_2 df = setcol df ''mrp'' (map (spec_clean True) (col df ''mrp''))"

definition total_2_3 :: "dataframe \<Rightarrow> dataframe" where
  "total_2_3 df =
     setcol df ''discount_percent''
       (discount_backfill (col df ''discount_percent'') (col df ''price'') (col df ''mrp''))"

definition total_2_4 :: "(pynum \<Rightarrow> string) \<Rightarrow> dataframe \<Rightarrow> dataframe" where
  "total_2_4 repr df =
     setcol df ''product_rating'' (map (spec_rating repr) (col df ''product_rating''))"

definition total_2_5 :: "(pynum \<Rightarrow> string) \<Rightarrow> dataframe \<Rightarrow> dataframe" where
  "total_2_5 repr df = setcol df ''num_ratings'' (map (spec_count repr) (col df ''num_ratings''))"

definition total_2_6 :: "(pynum \<Rightarrow> string) \<Rightarrow> dataframe \<Rightarrow> dataframe" where
  "total_2_6 repr df =
     setcol df ''review_rating'' (map (spec_rating repr) (col df ''review_rating''))"

definition total_2_7 :: "dataframe \<Rightarrow> dataframe" where
  "total_2_7 df =
     setcol df ''brand'' (brand_backfill (col df ''brand'') (col df ''product_name''))"

definition total_2_8 :: "dataframe \<Rightarrow> dataframe" where
  "total_2_8 df =
     setcol
       (setcol
          (setcol
             (setcol df ''price_mrp_ratio'' (price_mrp_ratio (col df ''price'') (col df ''mrp'')))
             ''suspicious_pricing''
             (suspicious_pricing (price_mrp_ratio (col df ''price'') (col df ''mrp''))))
          ''has_review'' (has_review (col df ''review_text'')))
       ''rating_quality_score''
       (rating_quality_score (col df ''product_rating'') (col df ''num_ratings''))"

definition total_2_9 :: "dataframe \<Rightarrow> dataframe" where
  "total_2_9 df =
     setcol (setcol df ''platform'' (fillna (Str ''Unknown'') (col df ''platform'')))
       ''seller_name'' (fillna (Str ''Unknown'') (col df ''seller_name''))"

definition cleaned_table :: "(pynum \<Rightarrow> string) \<Rightarrow> dataframe \<Rightarrow> dataframe" where
  "cleaned_table repr df =
     total_2_9 (total_2_8 (total_2_7 (total_2_6 repr (total_2_5 repr (total_2_4 repr
       (total_2_3 (total_2_2 (total_2_1 df))))))))"

text \<open>
  A cleaned table is stable under re-extraction when each of its rating and rating-count
  cells, printed by \<^verbatim>\<open>str\<close> and read again by its extractor, gives the same cell.
\<close>

definition reextracts :: "(pynum \<Rightarrow> string) \<Rightarrow> dataframe \<Rightarrow> bool" where
  "reextracts repr df =
     (list_all (\<lambda>c. extract_rating_from_text repr c = Inr c) (col df ''product_rating'')
      \<and> list_all (\<lambda>c. clean_rating repr c = Inr c) (col df ''num_ratings'')
      \<and> list_all (\<lambda>c. extract_rating_from_text repr c = Inr c) (col df ''review_rating''))"

section \<open>The specification's order of the steps\<close>

text \<open>
  The specification runs the cleanings of the base columns first, in any order, and the
  derived-feature pass (discount backfill, brand backfill, derived columns, defaults)
  after all of them. \<open>spec_order repr order\<close> is that pass for the order \<open>order\<close> of the
  base cleanings.
\<close>

datatype base_cleaning =
  Clean_price | Clean_mrp | Clean_product_rating | Clean_num_ratings | Clean_review_rating


fun total_base :: "(pynum \<Rightarrow> string) \<Rightarrow> base_cleaning \<Rightarrow> dataframe \<Rightarrow> dataframe" where
  "total_base repr Clean_price = total_2_1"
| "total_base repr Clean_mrp = total_2_2"
| "total_base repr Clean_product_rating = total_2_4 repr"
| "total_base repr Clean_num_ratings = total_2_5 repr"
| "total_base repr Clean_review_rating = total_2_6 repr"

fun base_column :: "base_cleaning \<Rightarrow> string" where
  "base_column Clean_price = ''price''"
| "base_column Clean_mrp = ''mrp''"
| "base_column Clean_product_rating = ''product_rating''"
| "base_column Clean_num_ratings = ''num_ratings''"
| "base_column Clean_review_rating = ''review_rating''"




section \<open>A sample table\<close>

text \<open>
  Five listings, with a column \<^verbatim>\<open>sku\<close> that the script does not know. \<open>py_repr_sample\<close> is
  \<^verbatim>\<open>str\<close> on the floats that the runs on this table print, as CPython prints them.
\<close>

definition example_table :: dataframe where
  "example_table =
     [(''product_name'', [Str ''Sony TV'', Str ''Acme kettle'', NA, Str ''  '', Str ''Lamp'']),
      (''brand'', [NA, Str ''Acme'', NA, NA, NA]),
      (''platform'', [NA, Str ''Amazon'', NA, NA, NA]),
      (''seller_name'', [Str ''s1'', NA, NA, NA, NA]),
      (''price'', [Str ''40'', Str ''60'', NA, Str ''80'', Str ''0'']),
      (''mrp'', [Str ''100'', Str ''100'', Str ''100'', Num (Fin 100), Str ''0'']),
      (''discount_percent'', [NA, Num (Fin 5), NA, NA, NA]),
      (''product_rating'', [Str ''4.5 out of 5 stars'', Str ''9'', Str ''95'', NA, Str ''4'']),
      (''num_ratings'', [Str ''12,345'', Str ''-1,000'', Str ''no data'', NA, Str ''7'']),
      (''review_rating'', [NA, Str ''4'', NA, NA, NA]),
      (''review_text'', [Str ''good'', NA, NA, Str ''ok'', NA]),
      (''sku'', [Str ''a'', Str ''b'', Str ''c'', Str ''d'', Str ''e''])]"


text \<open>The sample table with a product rating that cleans to the float \<^verbatim>\<open>1e-05\<close>.\<close>

definition tiny_rating_table :: dataframe where
  "tiny_rating_table = setcol example_table ''product_rating'' [Str ''0.00001'', NA, NA, NA, NA]"

definition py_repr_sample :: "pynum \<Rightarrow> string" where
  "py_repr_sample x =
     (if x = Fin (9 / 2) then ''4.5''
      else if x = Fin 4 then ''4.0''
      else if x = Fin 12345 then ''12345.0''
      else if x = Fin 1000 then ''1000.0''
      else if x = Fin 7 then ''7.0''
      else if x = Fin (1 / 100000) then ''1e-05''
      else ''nan'')"

section \<open>Properties of the regular expressions\<close>

declare rx_match.simps(4) [simp del]
declare re_search.simps [simp del]
declare re_sub.simps [simp del]


lemma rx_match_Star_ne: "rx_match (Star r) s \<noteq> []"
  by (subst rx_match.simps) simp

lemma star_cls_hd: "hd (rx_match (Star (Cls p)) s) = dropWhile p s"
proof (induction s)
  case Nil
  show ?case by (subst rx_match.simps) simp
next
  case (Cons c cs)
  show ?case
  proof (cases "p c")
    case True
    have ne: "rx_match (Star (Cls p)) cs \<noteq> []" by (rule rx_match_Star_ne)
    have "rx_match (Star (Cls p)) (c # cs) = rx_match (Star (Cls p)) cs @ [c # cs]"
      using True by (subst rx_match.simps) simp
    then show ?thesis using ne Cons True by simp
  next
    case False
    then show ?thesis by (subst rx_match.simps) simp
  qed
qed

lemma plus_cls_nil: "\<not> p c \<Longrightarrow> rx_match (Plus (Cls p)) (c # cs) = []"
  "rx_match (Plus (Cls p)) [] = []"
  by (simp_all add: Plus_def)

lemma plus_cls_hd:
  assumes "p c"
  shows "rx_match (Plus (Cls p)) (c # cs) \<noteq> []"
    and "hd (rx_match (Plus (Cls p)) (c # cs)) = dropWhile p cs"
  using assms rx_match_Star_ne[of "Cls p" cs] star_cls_hd[of p cs]
  by (simp_all add: Plus_def)

lemma take_diff_dropWhile: "take (length s - length (dropWhile p s)) s = takeWhile p s"
  by (induction s) (auto simp: Suc_diff_le length_dropWhile_le)

lemma count_search_digit:
  assumes "is_digit c"
  shows "re_search count_pattern (c # cs) = Some (c # takeWhile is_digit cs)"
proof -
  obtain t ts where m: "rx_match (Plus (Cls is_digit)) (c # cs) = t # ts"
    using plus_cls_hd(1)[where p=is_digit and c=c and cs=cs] assms by (cases "rx_match (Plus (Cls is_digit)) (c # cs)") auto
  then have t: "t = dropWhile is_digit cs" using plus_cls_hd(2)[where p=is_digit and c=c and cs=cs] assms by simp
  have "take (length (c # cs) - length t) (c # cs) = c # takeWhile is_digit cs"
    unfolding t using take_diff_dropWhile[where p=is_digit and s=cs]
    by (simp add: Suc_diff_le length_dropWhile_le)
  then show ?thesis using m by (subst re_search.simps) (simp add: count_pattern_def)
qed

lemma count_search: "re_search count_pattern s = first_digit_run s"
proof (induction s)
  case Nil
  show ?case by (subst re_search.simps) (simp add: count_pattern_def plus_cls_nil first_digit_run_def)
next
  case (Cons c cs)
  show ?case
  proof (cases "is_digit c")
    case True
    then show ?thesis by (simp add: count_search_digit first_digit_run_def)
  next
    case False
    have "re_search count_pattern (c # cs) = re_search count_pattern cs"
      using False by (subst re_search.simps) (simp add: count_pattern_def plus_cls_nil)
    then show ?thesis using Cons False by (simp add: first_digit_run_def)
  qed
qed

lemma re_sub_cls: "re_sub (Cls p) s = filter (\<lambda>c. \<not> p c) s"
proof (induction s)
  case Nil
  show ?case by (subst re_sub.simps) simp
next
  case (Cons c cs)
  then show ?case by (subst re_sub.simps) simp
qed

lemma hd_concat_map:
  assumes "xs \<noteq> []" "f (hd xs) \<noteq> []"
  shows "concat (map f xs) \<noteq> []" "hd (concat (map f xs)) = hd (f (hd xs))"
  using assms by (cases xs; simp)+

lemma opt_star_ne: "rx_match (Cat (Opt (Cls q)) (Star (Cls p))) t \<noteq> []"
  using rx_match_Star_ne[of "Cls p"] by (cases t) auto

lemma opt_star_hd:
  "hd (rx_match (Cat (Opt (Cls q)) (Star (Cls p))) t) =
     (case t of [] \<Rightarrow> [] | c # t' \<Rightarrow> if q c then dropWhile p t' else dropWhile p t)"
  using rx_match_Star_ne[of "Cls p"] star_cls_hd[of p]
  by (cases t) (auto simp: hd_append)

lemma opt_star_hd_stop:
  assumes "u = [] \<or> \<not> p (hd u)"
  shows "hd (rx_match (Cat (Opt (Cls q)) (Star (Cls p))) u) =
         (case u of [] \<Rightarrow> [] | d # t' \<Rightarrow> if q d then dropWhile p t' else d # t')"
  using assms by (cases u) (simp_all add: opt_star_hd del: rx_match.simps)

lemma dropWhile_stop: "dropWhile p cs = [] \<or> \<not> p (hd (dropWhile p cs))"
  using hd_dropWhile[of p cs] by blast

lemma rating_match_digit:
  assumes "is_digit c"
  shows "rx_match rating_pattern (c # cs) \<noteq> []"
    and "hd (rx_match rating_pattern (c # cs)) =
         (case dropWhile is_digit cs of
            [] \<Rightarrow> []
          | d # t' \<Rightarrow> if d = CHR ''.'' then dropWhile is_digit t' else d # t')"
proof -
  let ?f = "rx_match (Cat (Opt (Cls (\<lambda>c. c = CHR ''.''))) (Star (Cls is_digit)))"
  let ?xs = "rx_match (Plus (Cls is_digit)) (c # cs)"
  have xs: "?xs \<noteq> []" "hd ?xs = dropWhile is_digit cs"
    using plus_cls_hd[where p=is_digit and c=c and cs=cs] assms by simp_all
  have f: "?f (hd ?xs) \<noteq> []" by (rule opt_star_ne)
  have eq: "rx_match rating_pattern (c # cs) = concat (map ?f ?xs)"
    by (simp add: rating_pattern_def)
  show "rx_match rating_pattern (c # cs) \<noteq> []"
    unfolding eq using hd_concat_map(1)[where f="?f" and xs="?xs"] xs(1) f by blast
  have "hd (rx_match rating_pattern (c # cs)) = hd (?f (dropWhile is_digit cs))"
    unfolding eq using hd_concat_map(2)[where f="?f" and xs="?xs"] xs f by simp
  then show "hd (rx_match rating_pattern (c # cs)) =
         (case dropWhile is_digit cs of
            [] \<Rightarrow> []
          | d # t' \<Rightarrow> if d = CHR ''.'' then dropWhile is_digit t' else d # t')"
    using opt_star_hd_stop[where u="dropWhile is_digit cs" and p=is_digit and q="\<lambda>c. c = CHR ''.''"]
      dropWhile_stop[of is_digit cs] by simp
qed

lemma rating_match_nodigit:
  "\<not> is_digit c \<Longrightarrow> rx_match rating_pattern (c # cs) = []"
  "rx_match rating_pattern [] = []"
  by (simp_all add: rating_pattern_def plus_cls_nil)

lemma take_prefix_len: "xs = ys @ t \<Longrightarrow> take (length xs - length t) xs = ys"
  by simp

lemma rating_search_digit:
  assumes "is_digit c"
  shows "re_search rating_pattern (c # cs) =
         Some (c # takeWhile is_digit cs @
                (case dropWhile is_digit cs of
                   [] \<Rightarrow> []
                 | d # t' \<Rightarrow> if d = CHR ''.'' then d # takeWhile is_digit t' else []))"
proof -
  define u where "u = dropWhile is_digit cs"
  define w where "w = takeWhile is_digit cs"
  have cs: "cs = w @ u" by (simp add: u_def w_def)
  obtain t ts where m: "rx_match rating_pattern (c # cs) = t # ts"
    using rating_match_digit(1)[OF assms, of cs] by (cases "rx_match rating_pattern (c # cs)") auto
  then have t: "t = (case u of
            [] \<Rightarrow> []
          | d # t' \<Rightarrow> if d = CHR ''.'' then dropWhile is_digit t' else d # t')"
    using rating_match_digit(2)[OF assms, of cs] by (simp add: u_def)
  have "c # cs = (c # w @ (case u of
                   [] \<Rightarrow> []
                 | d # t' \<Rightarrow> if d = CHR ''.'' then d # takeWhile is_digit t' else [])) @ t"
    unfolding t cs by (cases u) simp_all
  from take_prefix_len[OF this]
  have "take (length (c # cs) - length t) (c # cs) = c # w @ (case u of
                   [] \<Rightarrow> []
                 | d # t' \<Rightarrow> if d = CHR ''.'' then d # takeWhile is_digit t' else [])" .
  then show ?thesis using m unfolding u_def w_def by (subst re_search.simps) simp
qed

lemma rating_search: "re_search rating_pattern s = first_numeral s"
proof (induction s)
  case Nil
  show ?case by (subst re_search.simps) (simp add: rating_match_nodigit first_numeral_def)
next
  case (Cons c cs)
  show ?case
  proof (cases "is_digit c")
    case True
    have "first_numeral (c # cs) = Some (c # takeWhile is_digit cs @
                (case dropWhile is_digit cs of
                   [] \<Rightarrow> []
                 | d # t' \<Rightarrow> if d = CHR ''.'' then d # takeWhile is_digit t' else []))"
      using True by (cases "dropWhile is_digit cs")
        (simp_all add: first_numeral_def Let_def del: dropWhile_eq_Nil_conv)
    then show ?thesis using True by (simp add: rating_search_digit)
  next
    case False
    have "re_search rating_pattern (c # cs) = re_search rating_pattern cs"
      using False by (subst re_search.simps) (simp add: rating_match_nodigit)
    then show ?thesis using Cons False by (simp add: first_numeral_def)
  qed
qed


section \<open>The per-cell cleaners against the specification\<close>

lemma not_digit_point [simp]: "\<not> is_digit (CHR ''.'')" "\<not> is_digit (CHR ''-'')" "\<not> is_digit (CHR ''+'')"
  by (simp_all add: is_digit_def)

lemma first_numeral_shape:
  assumes "first_numeral s = Some m"
  shows "\<exists>ip fr. ip \<noteq> [] \<and> list_all is_digit ip \<and> list_all is_digit fr \<and>
           (m = ip \<or> m = ip @ CHR ''.'' # fr)"
proof -
  define t where "t = dropWhile (\<lambda>c. \<not> is_digit c) s"
  have tne: "t \<noteq> []" using assms unfolding first_numeral_def t_def by (auto simp: Let_def split: if_splits)
  then have hd: "is_digit (hd t)" unfolding t_def using hd_dropWhile[of "\<lambda>c. \<not> is_digit c" s] by blast
  define ip where "ip = takeWhile is_digit t"
  have ipne: "ip \<noteq> []" using tne hd unfolding ip_def by (cases t) auto
  have ipd: "list_all is_digit ip" unfolding ip_def list_all_iff using set_takeWhileD by fastforce
  have m: "m = (case dropWhile is_digit t of [] \<Rightarrow> ip
        | c # r' \<Rightarrow> if c = CHR ''.'' then ip @ c # takeWhile is_digit r' else ip)"
    using assms tne unfolding first_numeral_def t_def[symmetric] ip_def by (simp add: Let_def)
  show ?thesis
  proof (cases "dropWhile is_digit t")
    case Nil
    from m have "m = ip" by (simp only: Nil list.case)
    then show ?thesis using ipne ipd by (intro exI[of _ ip] exI[of _ "[]"]) simp
  next
    case (Cons c r')
    have frd: "list_all is_digit (takeWhile is_digit r')"
      unfolding list_all_iff using set_takeWhileD by fastforce
    from m have "m = (if c = CHR ''.'' then ip @ c # takeWhile is_digit r' else ip)"
      by (simp only: Cons list.case)
    then show ?thesis using ipne ipd frd
      by (intro exI[of _ ip] exI[of _ "takeWhile is_digit r'"]) auto
  qed
qed

lemma takeWhile_all: "list_all p xs \<Longrightarrow> takeWhile p xs = xs" "list_all p xs \<Longrightarrow> dropWhile p xs = []"
  by (induction xs) auto

lemma takeWhile_all_stop:
  "list_all p xs \<Longrightarrow> \<not> p y \<Longrightarrow> takeWhile p (xs @ y # ys) = xs"
  "list_all p xs \<Longrightarrow> \<not> p y \<Longrightarrow> dropWhile p (xs @ y # ys) = y # ys"
  by (induction xs) auto

lemma float_unsigned_numeral:
  assumes "ip \<noteq> []" "list_all is_digit ip" "list_all is_digit fr"
  shows "float_unsigned ip = Some (numeral_value ip)"
    and "float_unsigned (ip @ CHR ''.'' # fr) = Some (numeral_value (ip @ CHR ''.'' # fr))"
  using assms
  by (simp_all add: float_unsigned_def numeral_value_def takeWhile_all takeWhile_all_stop digits_val_def)

lemma py_float_digit_head:
  assumes "is_digit c"
  shows "py_float (c # cs) = map_option Fin (float_unsigned (c # cs))"
  using assms by (auto simp: py_float_def)

lemma float_first_numeral:
  assumes "first_numeral s = Some m"
  shows "float_or_raise m = Inr (Fin (numeral_value m))"
proof -
  obtain ip fr where s: "ip \<noteq> []" "list_all is_digit ip" "list_all is_digit fr"
      "m = ip \<or> m = ip @ CHR ''.'' # fr"
    using first_numeral_shape[OF assms] by blast
  obtain c cs where ip: "ip = c # cs" using s(1) by (cases ip) auto
  then have c: "is_digit c" using s(2) by simp
  have "float_unsigned m = Some (numeral_value m)"
    using s(4) float_unsigned_numeral[OF s(1,2,3)] by auto
  moreover have "py_float m = map_option Fin (float_unsigned m)"
    using s(4) py_float_digit_head[OF c] ip by auto
  ultimately show ?thesis by (simp add: float_or_raise_def)
qed

lemma numeral_value_nonneg: "0 \<le> numeral_value m"
  by (simp add: numeral_value_def Let_def)


lemma extract_rating_eq:
  "extract_rating_from_text repr text = Inr (spec_rating repr text)"
proof (cases "first_numeral (py_str repr text)")
  case None
  then show ?thesis
    by (simp add: extract_rating_from_text_def spec_rating_def isna_def rating_search)
next
  case (Some m)
  show ?thesis
    using Some float_first_numeral[OF Some] numeral_value_nonneg[of m]
    by (simp add: extract_rating_from_text_def spec_rating_def isna_def rating_search
        rescale_def Let_def)
qed

lemma first_digit_run_shape:
  assumes "first_digit_run s = Some m"
  shows "m \<noteq> [] \<and> list_all is_digit m"
proof -
  define t where "t = dropWhile (\<lambda>c. \<not> is_digit c) s"
  have tne: "t \<noteq> []" using assms unfolding first_digit_run_def t_def by (auto simp: Let_def split: if_splits)
  then have hd: "is_digit (hd t)" unfolding t_def using hd_dropWhile[of "\<lambda>c. \<not> is_digit c" s] by blast
  have m: "m = takeWhile is_digit t"
    using assms tne unfolding first_digit_run_def t_def[symmetric] by (simp add: Let_def)
  have "m \<noteq> []" using tne hd unfolding m by (cases t) auto
  moreover have "list_all is_digit m" unfolding m list_all_iff using set_takeWhileD by fastforce
  ultimately show ?thesis by simp
qed

lemma int_first_digit_run:
  assumes "first_digit_run s = Some m"
  shows "int_or_raise m = Inr (int (digits_val m))"
proof -
  have s: "m \<noteq> []" "list_all is_digit m" using first_digit_run_shape[OF assms] by simp_all
  then obtain c cs where m: "m = c # cs" by (cases m) auto
  then have "is_digit c" using s by simp
  then have "c \<noteq> CHR ''-''" "c \<noteq> CHR ''+''" by auto
  then have "py_int m = int_unsigned m" unfolding m by (simp add: py_int_def)
  then show ?thesis using s by (simp add: int_or_raise_def int_unsigned_def)
qed

lemma clean_rating_eq: "clean_rating repr val = Inr (spec_count repr val)"
proof -
  have f: "replace_char (CHR ''-'') (re_sub comma_pattern s) =
        filter (\<lambda>d. d \<noteq> CHR '','' \<and> d \<noteq> CHR ''-'') s" for s
    by (simp add: replace_char_def comma_pattern_def re_sub_cls conj_commute)
  show ?thesis
  proof (cases "first_digit_run (filter (\<lambda>d. d \<noteq> CHR '','' \<and> d \<noteq> CHR ''-'') (py_str repr val))")
    case None
    then show ?thesis
      by (simp add: clean_rating_def spec_count_def isna_def count_search f)
  next
    case (Some m)
    then show ?thesis using int_first_digit_run[OF Some]
      by (simp add: clean_rating_def spec_count_def isna_def count_search f)
  qed
qed

lemma clean_value_eq: "clean_value b c = Inr (spec_clean b c)"
proof (cases c)
  case (Str s)
  have f: "re_sub non_numeric_pattern t =
           filter (\<lambda>d. is_digit d \<or> d = CHR ''.'' \<or> d = CHR ''-'') t" for t
    by (simp add: non_numeric_pattern_def re_sub_cls)
  show ?thesis unfolding Str
    by (simp add: clean_value_def spec_clean_def f Let_def try_except_def float_or_raise_def
        split: option.splits)
qed (simp_all add: clean_value_def spec_clean_def)

lemma spec_clean_nonneg: "nonneg_cell (spec_clean True c)"
proof (cases c)
  case (Str s)
  have "\<not> py_lt0 v \<Longrightarrow> py_ge0 v" for v by (cases v) auto
  then show ?thesis unfolding Str
    by (auto simp: spec_clean_def nonneg_cell_def split: option.splits)
qed (simp_all add: spec_clean_def nonneg_cell_def)

lemma series_apply_total:
  assumes "\<And>c. f c = Inr (g c)"
  shows "series_apply f s = Inr (map g s)"
  by (induction s) (simp_all add: assms)

lemma clean_numeric_column_eq: "clean_numeric_column s b = Inr (map (spec_clean b) s)"
  unfolding clean_numeric_column_def by (rule series_apply_total) (rule clean_value_eq)

lemma clean_num_ratings_eq: "clean_num_ratings repr s = Inr (map (spec_count repr) s)"
  unfolding clean_num_ratings_def by (rule series_apply_total) (rule clean_rating_eq)

lemma apply_rating_eq:
  "series_apply (extract_rating_from_text repr) s = Inr (map (spec_rating repr) s)"
  by (rule series_apply_total) (rule extract_rating_eq)







text \<open>
  Claim C2. For every cell, \<^verbatim>\<open>clean_value\<close> with \<open>remove_negative\<close> set follows the
  specification's rules in their order: a missing cell stays missing; a number is kept
  exactly when it is not negative; any other cell is stripped, loses every character
  outside \<^verbatim>\<open>[0-9.-]\<close>, and is parsed as a float, a parse failure or a negative value
  giving a missing cell. Hence every cell of a cleaned price column is missing or a
  number that is not negative.
\<close>

theorem clean_price_follows_spec:
  "clean_value True c = Inr (spec_clean True c)
   \<and> nonneg_cell (spec_clean True c)
   \<and> clean_numeric_column s True = Inr (map (spec_clean True) s)
   \<and> list_all nonneg_cell (map (spec_clean True) s)
   \<and> clean_value True (Str '' 1,299.50 '') = Inr (Num (Fin (2599 / 2)))
   \<and> clean_value True (Str ''-5'') = Inr NA
   \<and> clean_value True (Num (Fin (- 5))) = Inr NA
   \<and> clean_value True (Str ''n/a'') = Inr NA"
proof -
  have ev: "spec_clean True (Str '' 1,299.50 '') = Num (Fin (2599 / 2))"
    "spec_clean True (Str ''-5'') = NA"
    "spec_clean True (Num (Fin (- 5))) = NA"
    "spec_clean True (Str ''n/a'') = NA"
    by (simp_all add: spec_clean_def strip_def is_space_def is_digit_def py_float_def
        float_unsigned_def digits_val_def digit_val_def Let_def)
  have "list_all nonneg_cell (map (spec_clean True) s)"
    by (simp add: list_all_iff spec_clean_nonneg)
  then show ?thesis
    by (simp add: clean_value_eq clean_numeric_column_eq spec_clean_nonneg ev)
qed






section \<open>The pass on a table that has its columns\<close>

lemma map_of_setcol [simp]:
  "map_of (setcol df k v) c = (if c = k then Some v else map_of df c)"
  by (simp add: setcol_def update_conv')

lemma col_setcol [simp]: "col (setcol df k v) c = (if c = k then v else col df c)"
  by (simp add: col_def)

lemma has_column_setcol [simp]:
  "has_column (setcol df k v) c \<longleftrightarrow> c = k \<or> has_column df c"
  by (simp add: has_column_def)

lemma getcol_col: "has_column df c \<Longrightarrow> getcol df c = Inr (col df c)"
  by (auto simp: getcol_def col_def has_column_def)

lemma bindE_simps [simp]: "bindE (Inr x) f = f x" "bindE (Inl e) f = Inl e"
  by (simp_all add: bindE_def)

lemma step_2_1_total: "has_column df ''price'' \<Longrightarrow> step_2_1 df = Inr (total_2_1 df)"
  by (simp add: step_2_1_def total_2_1_def getcol_col clean_numeric_column_eq)

lemma step_2_2_total: "has_column df ''mrp'' \<Longrightarrow> step_2_2 df = Inr (total_2_2 df)"
  by (simp add: step_2_2_def total_2_2_def getcol_col clean_numeric_column_eq)

lemma step_2_3_total:
  "has_column df ''discount_percent'' \<Longrightarrow> has_column df ''price'' \<Longrightarrow>
   has_column df ''mrp'' \<Longrightarrow> step_2_3 df = Inr (total_2_3 df)"
  by (simp add: step_2_3_def total_2_3_def getcol_col)

lemma step_2_4_total:
  "has_column df ''product_rating'' \<Longrightarrow> step_2_4 repr df = Inr (total_2_4 repr df)"
  by (simp add: step_2_4_def total_2_4_def getcol_col apply_rating_eq)

lemma step_2_5_total:
  "has_column df ''num_ratings'' \<Longrightarrow> step_2_5 repr df = Inr (total_2_5 repr df)"
  by (simp add: step_2_5_def total_2_5_def getcol_col clean_num_ratings_eq)

lemma step_2_6_total:
  "has_column df ''review_rating'' \<Longrightarrow> step_2_6 repr df = Inr (total_2_6 repr df)"
  by (simp add: step_2_6_def total_2_6_def getcol_col apply_rating_eq)

lemma step_2_7_total:
  "has_column df ''brand'' \<Longrightarrow> has_column df ''product_name'' \<Longrightarrow>
   step_2_7 df = Inr (total_2_7 df)"
  by (simp add: step_2_7_def total_2_7_def getcol_col)

lemma step_2_8_total:
  "has_column df ''price'' \<Longrightarrow> has_column df ''mrp'' \<Longrightarrow>
   has_column df ''review_text'' \<Longrightarrow> has_column df ''product_rating'' \<Longrightarrow>
   has_column df ''num_ratings'' \<Longrightarrow> step_2_8 df = Inr (total_2_8 df)"
  by (simp add: step_2_8_def total_2_8_def getcol_col Let_def)

lemma step_2_9_total:
  "has_column df ''platform'' \<Longrightarrow> has_column df ''seller_name'' \<Longrightarrow>
   step_2_9 df = Inr (total_2_9 df)"
  by (simp add: step_2_9_def total_2_9_def getcol_col Let_def)

lemma has_column_total [simp]:
  "has_column (total_2_1 df) c \<longleftrightarrow> c = ''price'' \<or> has_column df c"
  "has_column (total_2_2 df) c \<longleftrightarrow> c = ''mrp'' \<or> has_column df c"
  "has_column (total_2_3 df) c \<longleftrightarrow> c = ''discount_percent'' \<or> has_column df c"
  "has_column (total_2_4 repr df) c \<longleftrightarrow> c = ''product_rating'' \<or> has_column df c"
  "has_column (total_2_5 repr df) c \<longleftrightarrow> c = ''num_ratings'' \<or> has_column df c"
  "has_column (total_2_6 repr df) c \<longleftrightarrow> c = ''review_rating'' \<or> has_column df c"
  "has_column (total_2_7 df) c \<longleftrightarrow> c = ''brand'' \<or> has_column df c"
  "has_column (total_2_9 df) c \<longleftrightarrow>
     c = ''platform'' \<or> c = ''seller_name'' \<or> has_column df c"
  by (auto simp: total_2_1_def total_2_2_def total_2_3_def total_2_4_def total_2_5_def
      total_2_6_def total_2_7_def total_2_9_def)

lemma has_column_total_2_8 [simp]:
  "has_column (total_2_8 df) c \<longleftrightarrow> c \<in> set derived_columns \<or> has_column df c"
  by (auto simp: total_2_8_def derived_columns_def)

lemma preprocess_total:
  assumes "has_columns df input_columns"
  shows "preprocess_data repr df = Inr (cleaned_table repr df)"
proof -
  have h: "has_column df ''price''" "has_column df ''mrp''"
    "has_column df ''discount_percent''" "has_column df ''product_rating''"
    "has_column df ''num_ratings''" "has_column df ''review_rating''"
    "has_column df ''brand''" "has_column df ''product_name''"
    "has_column df ''review_text''" "has_column df ''platform''"
    "has_column df ''seller_name''"
    using assms by (simp_all add: has_columns_def input_columns_def)
  show ?thesis
    unfolding preprocess_data_def cleaned_table_def
    by (simp add: h step_2_1_total step_2_2_total step_2_3_total step_2_4_total
        step_2_5_total step_2_6_total step_2_7_total step_2_8_total step_2_9_total)
qed

lemma col_total [simp]:
  "col (total_2_1 df) c = (if c = ''price'' then map (spec_clean True) (col df ''price'') else col df c)"
  "col (total_2_2 df) c = (if c = ''mrp'' then map (spec_clean True) (col df ''mrp'') else col df c)"
  "col (total_2_3 df) c =
     (if c = ''discount_percent''
      then discount_backfill (col df ''discount_percent'') (col df ''price'') (col df ''mrp'')
      else col df c)"
  "col (total_2_4 repr df) c =
     (if c = ''product_rating'' then map (spec_rating repr) (col df ''product_rating'') else col df c)"
  "col (total_2_5 repr df) c =
     (if c = ''num_ratings'' then map (spec_count repr) (col df ''num_ratings'') else col df c)"
  "col (total_2_6 repr df) c =
     (if c = ''review_rating'' then map (spec_rating repr) (col df ''review_rating'') else col df c)"
  "col (total_2_7 df) c =
     (if c = ''brand'' then brand_backfill (col df ''brand'') (col df ''product_name'') else col df c)"
  "col (total_2_8 df) c =
     (if c = ''rating_quality_score''
      then rating_quality_score (col df ''product_rating'') (col df ''num_ratings'')
      else if c = ''has_review'' then has_review (col df ''review_text'')
      else if c = ''suspicious_pricing''
      then suspicious_pricing (price_mrp_ratio (col df ''price'') (col df ''mrp''))
      else if c = ''price_mrp_ratio'' then price_mrp_ratio (col df ''price'') (col df ''mrp'')
      else col df c)"
  "col (total_2_9 df) c =
     (if c = ''seller_name'' then fillna (Str ''Unknown'') (col df ''seller_name'')
      else if c = ''platform'' then fillna (Str ''Unknown'') (col df ''platform'')
      else col df c)"
  by (simp_all add: total_2_1_def total_2_2_def total_2_3_def total_2_4_def total_2_5_def
      total_2_6_def total_2_7_def total_2_8_def total_2_9_def)

lemma cleaned_price: "col (cleaned_table repr df) ''price'' = map (spec_clean True) (col df ''price'')"
  and cleaned_mrp: "col (cleaned_table repr df) ''mrp'' = map (spec_clean True) (col df ''mrp'')"
  and cleaned_discount: "col (cleaned_table repr df) ''discount_percent'' =
     discount_backfill (col df ''discount_percent'')
       (map (spec_clean True) (col df ''price'')) (map (spec_clean True) (col df ''mrp''))"
  and cleaned_product_rating: "col (cleaned_table repr df) ''product_rating'' =
     map (spec_rating repr) (col df ''product_rating'')"
  and cleaned_num_ratings: "col (cleaned_table repr df) ''num_ratings'' =
     map (spec_count repr) (col df ''num_ratings'')"
  and cleaned_review_rating: "col (cleaned_table repr df) ''review_rating'' =
     map (spec_rating repr) (col df ''review_rating'')"
  and cleaned_brand: "col (cleaned_table repr df) ''brand'' =
     brand_backfill (col df ''brand'') (col df ''product_name'')"
  and cleaned_product_name: "col (cleaned_table repr df) ''product_name'' = col df ''product_name''"
  and cleaned_review_text: "col (cleaned_table repr df) ''review_text'' = col df ''review_text''"
  and cleaned_ratio: "col (cleaned_table repr df) ''price_mrp_ratio'' =
     price_mrp_ratio (map (spec_clean True) (col df ''price'')) (map (spec_clean True) (col df ''mrp''))"
  and cleaned_suspicious: "col (cleaned_table repr df) ''suspicious_pricing'' =
     suspicious_pricing (price_mrp_ratio (map (spec_clean True) (col df ''price''))
        (map (spec_clean True) (col df ''mrp'')))"
  and cleaned_has_review: "col (cleaned_table repr df) ''has_review'' = has_review (col df ''review_text'')"
  and cleaned_score: "col (cleaned_table repr df) ''rating_quality_score'' =
     rating_quality_score (map (spec_rating repr) (col df ''product_rating''))
       (map (spec_count repr) (col df ''num_ratings''))"
  and cleaned_platform: "col (cleaned_table repr df) ''platform'' = fillna (Str ''Unknown'') (col df ''platform'')"
  and cleaned_seller: "col (cleaned_table repr df) ''seller_name'' = fillna (Str ''Unknown'') (col df ''seller_name'')"
  by (simp_all add: cleaned_table_def)

lemma has_column_cleaned:
  "has_column (cleaned_table repr df) c \<longleftrightarrow>
     c \<in> set [''price'', ''mrp'', ''discount_percent'', ''product_rating'', ''num_ratings'',
               ''review_rating'', ''brand'', ''platform'', ''seller_name'']
     \<or> c \<in> set derived_columns \<or> has_column df c"
  by (auto simp: cleaned_table_def)

lemma result_col_cleaned:
  assumes "has_columns df input_columns" "has_column (cleaned_table repr df) c"
  shows "result_col (preprocess_data repr df) c = Inr (col (cleaned_table repr df) c)"
  using assms by (simp add: result_col_def preprocess_total getcol_col)

lemma loc_assign_eq:
  "loc_assign (map f (zip d pm)) (map g pm) d = map (\<lambda>(x, y). if f (x, y) then g y else x) (zip d pm)"
proof (induction d arbitrary: pm)
  case Nil
  show ?case by (simp add: loc_assign_def)
next
  case (Cons x d)
  then show ?case by (cases pm) (simp_all add: loc_assign_def)
qed

lemma discount_backfill_eq:
  "discount_backfill discount price mrp =
     map (\<lambda>(d, p, m). if d = NA \<and> p \<noteq> NA \<and> m \<noteq> NA then discount_value p m else d)
         (zip discount (zip price mrp))"
proof -
  have "discount_backfill discount price mrp =
        map (\<lambda>(x, y). if (case (x, y) of (d, p, m) \<Rightarrow> isna d \<and> notna p \<and> notna m)
                       then (case y of (p, m) \<Rightarrow> discount_value p m) else x)
            (zip discount (zip price mrp))"
    unfolding discount_backfill_def Let_def by (rule loc_assign_eq)
  also have "\<dots> = map (\<lambda>(d, p, m). if d = NA \<and> p \<noteq> NA \<and> m \<noteq> NA then discount_value p m else d)
         (zip discount (zip price mrp))"
    by (rule map_cong) (auto simp: isna_def notna_def)
  finally show ?thesis .
qed



lemma round2_20: "round2 20 = 20"
  by (simp add: round2_def rint_def Let_def)

lemma example_has_columns: "has_columns example_table input_columns"
  by (simp add: has_columns_def input_columns_def has_column_def example_table_def)

lemma example_cols:
  "col example_table ''price'' = [Str ''40'', Str ''60'', NA, Str ''80'', Str ''0'']"
  "col example_table ''mrp'' = [Str ''100'', Str ''100'', Str ''100'', Num (Fin 100), Str ''0'']"
  "col example_table ''discount_percent'' = [NA, Num (Fin 5), NA, NA, NA]"
  "col example_table ''product_rating'' =
     [Str ''4.5 out of 5 stars'', Str ''9'', Str ''95'', NA, Str ''4'']"
  "col example_table ''num_ratings'' =
     [Str ''12,345'', Str ''-1,000'', Str ''no data'', NA, Str ''7'']"
  "col example_table ''review_rating'' = [NA, Str ''4'', NA, NA, NA]"
  "col example_table ''brand'' = [NA, Str ''Acme'', NA, NA, NA]"
  "col example_table ''product_name'' =
     [Str ''Sony TV'', Str ''Acme kettle'', NA, Str ''  '', Str ''Lamp'']"
  "col example_table ''review_text'' = [Str ''good'', NA, NA, Str ''ok'', NA]"
  "col example_table ''platform'' = [NA, Str ''Amazon'', NA, NA, NA]"
  "col example_table ''seller_name'' = [Str ''s1'', NA, NA, NA, NA]"
  by (simp_all add: col_def example_table_def)



section \<open>The backfilled and derived columns\<close>









section \<open>Rows and columns of the result\<close>





lemma length_loc_assign:
  "length (loc_assign b v old) = min (length b) (min (length v) (length old))"
  by (simp add: loc_assign_def)

lemma length_computed [simp]:
  "length (discount_backfill d p m) = min (length d) (min (length p) (length m))"
  "length (brand_backfill b nm) = min (length b) (length nm)"
  "length (price_mrp_ratio p m) = min (length p) (length m)"
  "length (suspicious_pricing r) = length r"
  "length (has_review t) = length t"
  "length (rating_quality_score r k) = min (length r) (length k)"
  "length (fillna v s) = length s"
  by (simp_all add: discount_backfill_def brand_backfill_def price_mrp_ratio_def
      suspicious_pricing_def has_review_def rating_quality_score_def fillna_def
      length_loc_assign Let_def)


lemma input_columns_present:
  assumes "has_columns df input_columns"
  shows "has_column df ''price''" "has_column df ''mrp''"
    "has_column df ''discount_percent''" "has_column df ''product_rating''"
    "has_column df ''num_ratings''" "has_column df ''review_rating''"
    "has_column df ''brand''" "has_column df ''product_name''"
    "has_column df ''review_text''" "has_column df ''platform''"
    "has_column df ''seller_name''"
  using assms by (simp_all add: has_columns_def input_columns_def)














section \<open>The order of the steps\<close>





lemma has_column_total_base [simp]:
  "has_column (total_base repr b df) c \<longleftrightarrow> c = base_column b \<or> has_column df c"
  by (cases b) simp_all










lemma getcol_if:
  "getcol df c = (if has_column df c then Inr (col df c) else Inl (KeyError c))"
  by (auto simp: getcol_def col_def has_column_def)

lemma step_if:
  "step_2_1 df = (if has_column df ''price'' then Inr (total_2_1 df) else Inl (KeyError ''price''))"
  "step_2_2 df = (if has_column df ''mrp'' then Inr (total_2_2 df) else Inl (KeyError ''mrp''))"
  "step_2_3 df =
     (if has_column df ''discount_percent''
      then if has_column df ''price''
           then if has_column df ''mrp'' then Inr (total_2_3 df) else Inl (KeyError ''mrp'')
           else Inl (KeyError ''price'')
      else Inl (KeyError ''discount_percent''))"
  "step_2_4 repr df =
     (if has_column df ''product_rating'' then Inr (total_2_4 repr df)
      else Inl (KeyError ''product_rating''))"
  "step_2_5 repr df =
     (if has_column df ''num_ratings'' then Inr (total_2_5 repr df)
      else Inl (KeyError ''num_ratings''))"
  "step_2_6 repr df =
     (if has_column df ''review_rating'' then Inr (total_2_6 repr df)
      else Inl (KeyError ''review_rating''))"
  "step_2_7 df =
     (if has_column df ''brand''
      then if has_column df ''product_name'' then Inr (total_2_7 df)
           else Inl (KeyError ''product_name'')
      else Inl (KeyError ''brand''))"
  "step_2_9 df =
     (if has_column df ''platform''
      then if has_column df ''seller_name'' then Inr (total_2_9 df)
           else Inl (KeyError ''seller_name'')
      else Inl (KeyError ''platform''))"
  by (simp_all add: step_2_1_def step_2_2_def step_2_3_def step_2_4_def step_2_5_def
      step_2_6_def step_2_7_def step_2_9_def total_2_1_def total_2_2_def total_2_3_def
      total_2_4_def total_2_5_def total_2_6_def total_2_7_def total_2_9_def getcol_if
      clean_numeric_column_eq apply_rating_eq clean_num_ratings_eq Let_def)

lemma step_2_8_if:
  "step_2_8 df =
     (if has_column df ''price''
      then if has_column df ''mrp''
           then if has_column df ''review_text''
                then if has_column df ''product_rating''
                     then if has_column df ''num_ratings'' then Inr (total_2_8 df)
                          else Inl (KeyError ''num_ratings'')
                     else Inl (KeyError ''product_rating'')
                else Inl (KeyError ''review_text'')
           else Inl (KeyError ''mrp'')
      else Inl (KeyError ''price''))"
  by (simp add: step_2_8_def total_2_8_def getcol_if Let_def)

lemma preprocess_needs_columns:
  assumes "preprocess_data repr df = Inr out"
  shows "has_columns df input_columns"
proof -
  have "bindE m f = Inr y \<Longrightarrow> \<exists>x. m = Inr x \<and> f x = Inr y" for m :: "error + dataframe" and f y
    by (cases m) simp_all
  note b = this
  from assms obtain d1 where 1: "step_2_1 df = Inr d1"
    and r1: "bindE (step_2_2 d1) (\<lambda>df. bindE (step_2_3 df) (\<lambda>df. bindE (step_2_4 repr df)
       (\<lambda>df. bindE (step_2_5 repr df) (\<lambda>df. bindE (step_2_6 repr df) (\<lambda>df. bindE (step_2_7 df)
       (\<lambda>df. bindE (step_2_8 df) step_2_9)))))) = Inr out"
    unfolding preprocess_data_def by (blast dest: b)
  from r1 obtain d2 where 2: "step_2_2 d1 = Inr d2"
    and r2: "bindE (step_2_3 d2) (\<lambda>df. bindE (step_2_4 repr df)
       (\<lambda>df. bindE (step_2_5 repr df) (\<lambda>df. bindE (step_2_6 repr df) (\<lambda>df. bindE (step_2_7 df)
       (\<lambda>df. bindE (step_2_8 df) step_2_9))))) = Inr out"
    by (blast dest: b)
  from r2 obtain d3 where 3: "step_2_3 d2 = Inr d3"
    and r3: "bindE (step_2_4 repr d3)
       (\<lambda>df. bindE (step_2_5 repr df) (\<lambda>df. bindE (step_2_6 repr df) (\<lambda>df. bindE (step_2_7 df)
       (\<lambda>df. bindE (step_2_8 df) step_2_9)))) = Inr out"
    by (blast dest: b)
  from r3 obtain d4 where 4: "step_2_4 repr d3 = Inr d4"
    and r4: "bindE (step_2_5 repr d4) (\<lambda>df. bindE (step_2_6 repr df) (\<lambda>df. bindE (step_2_7 df)
       (\<lambda>df. bindE (step_2_8 df) step_2_9))) = Inr out"
    by (blast dest: b)
  from r4 obtain d5 where 5: "step_2_5 repr d4 = Inr d5"
    and r5: "bindE (step_2_6 repr d5) (\<lambda>df. bindE (step_2_7 df)
       (\<lambda>df. bindE (step_2_8 df) step_2_9)) = Inr out"
    by (blast dest: b)
  from r5 obtain d6 where 6: "step_2_6 repr d5 = Inr d6"
    and r6: "bindE (step_2_7 d6) (\<lambda>df. bindE (step_2_8 df) step_2_9) = Inr out"
    by (blast dest: b)
  from r6 obtain d7 where 7: "step_2_7 d6 = Inr d7"
    and r7: "bindE (step_2_8 d7) step_2_9 = Inr out"
    by (blast dest: b)
  from r7 obtain d8 where 8: "step_2_8 d7 = Inr d8" and 9: "step_2_9 d8 = Inr out"
    by (blast dest: b)
  have e1: "has_column df ''price''" "d1 = total_2_1 df"
    using 1 by (auto simp: step_if split: if_splits)
  have e2: "has_column d1 ''mrp''" "d2 = total_2_2 d1"
    using 2 by (auto simp: step_if split: if_splits)
  have e3: "has_column d2 ''discount_percent''" "d3 = total_2_3 d2"
    using 3 by (auto simp: step_if split: if_splits)
  have e4: "has_column d3 ''product_rating''" "d4 = total_2_4 repr d3"
    using 4 by (auto simp: step_if split: if_splits)
  have e5: "has_column d4 ''num_ratings''" "d5 = total_2_5 repr d4"
    using 5 by (auto simp: step_if split: if_splits)
  have e6: "has_column d5 ''review_rating''" "d6 = total_2_6 repr d5"
    using 6 by (auto simp: step_if split: if_splits)
  have e7: "has_column d6 ''brand''" "has_column d6 ''product_name''" "d7 = total_2_7 d6"
    using 7 by (auto simp: step_if split: if_splits)
  have e8: "has_column d7 ''review_text''" "d8 = total_2_8 d7"
    using 8 by (auto simp: step_2_8_if split: if_splits)
  have e9: "has_column d8 ''platform''" "has_column d8 ''seller_name''"
    using 9 by (auto simp: step_if split: if_splits)
  show ?thesis
    using e1 e2 e3 e4 e5 e6 e7 e8 e9
    by (simp add: has_columns_def input_columns_def derived_columns_def)
qed



lemma base_column_names:
  "base_column b \<in> {''price'', ''mrp'', ''product_rating'', ''num_ratings'', ''review_rating''}"
  by (cases b) simp_all


lemma bindE_Inr [simp]: "bindE m Inr = m"
  by (cases m) simp_all






section \<open>Running the pass on its own result\<close>

lemma setcol_same: "has_column df k \<Longrightarrow> col df k = v \<Longrightarrow> setcol df k v = df"
  unfolding setcol_def has_column_def col_def
  by (intro update_triv) (auto split: option.splits)

lemma spec_clean_idem: "spec_clean True (spec_clean True c) = spec_clean True c"
proof -
  have "nonneg_cell d \<Longrightarrow> spec_clean True d = d" for d
    by (cases d) (simp_all add: nonneg_cell_def spec_clean_def)
  then show ?thesis by (simp add: spec_clean_nonneg)
qed

lemma map_zip_idem:
  assumes "\<And>x y. f (f x y) y = f x y"
  shows "map (\<lambda>(x, y). f x y) (zip (map (\<lambda>(x, y). f x y) (zip xs ys)) ys) =
         map (\<lambda>(x, y). f x y) (zip xs ys)"
proof (induction xs arbitrary: ys)
  case Nil
  show ?case by simp
next
  case (Cons x xs)
  then show ?case by (cases ys) (simp_all add: assms)
qed

lemma discount_backfill_idem:
  "discount_backfill (discount_backfill d p m) p m = discount_backfill d p m"
proof -
  let ?f = "\<lambda>d (p, m). if d = NA \<and> p \<noteq> NA \<and> m \<noteq> NA then discount_value p m else d"
  have e: "discount_backfill d p m = map (\<lambda>(x, y). ?f x y) (zip d (zip p m))" for d
    unfolding discount_backfill_eq by (rule map_cong) auto
  have "?f (?f x y) y = ?f x y" for x y by (cases y) auto
  from map_zip_idem[of ?f, OF this] show ?thesis unfolding e .
qed

lemma brand_backfill_eq:
  "brand_backfill brand nm =
     map (\<lambda>(b, n). if b = NA \<and> n \<noteq> NA then first_token n else b) (zip brand nm)"
proof -
  have "brand_backfill brand nm =
        map (\<lambda>(x, y). if (case (x, y) of (b, n) \<Rightarrow> isna b \<and> notna n) then first_token y else x)
            (zip brand nm)"
    unfolding brand_backfill_def Let_def by (rule loc_assign_eq)
  also have "\<dots> = map (\<lambda>(b, n). if b = NA \<and> n \<noteq> NA then first_token n else b) (zip brand nm)"
    by (rule map_cong) (auto simp: isna_def notna_def)
  finally show ?thesis .
qed

lemma brand_backfill_idem:
  "brand_backfill (brand_backfill b nm) nm = brand_backfill b nm"
proof -
  let ?f = "\<lambda>b n. if b = NA \<and> n \<noteq> NA then first_token n else b"
  have "?f (?f x y) y = ?f x y" for x y by auto
  from map_zip_idem[of ?f, OF this] show ?thesis unfolding brand_backfill_eq .
qed

lemma fillna_idem: "fillna (Str u) (fillna (Str u) s) = fillna (Str u) s"
  by (simp add: fillna_def isna_def)

lemma list_all_fixed: "list_all (\<lambda>c. f c = c) xs \<longleftrightarrow> map f xs = xs"
  by (induction xs) auto

lemma reextracts_iff:
  "reextracts repr df \<longleftrightarrow>
     map (spec_rating repr) (col df ''product_rating'') = col df ''product_rating''
     \<and> map (spec_count repr) (col df ''num_ratings'') = col df ''num_ratings''
     \<and> map (spec_rating repr) (col df ''review_rating'') = col df ''review_rating''"
  by (simp add: reextracts_def extract_rating_eq clean_rating_eq list_all_fixed)

lemma cleaned_fixed:
  assumes "has_columns df input_columns" "reextracts repr (cleaned_table repr df)"
  shows "cleaned_table repr (cleaned_table repr df) = cleaned_table repr df"
proof -
  let ?out = "cleaned_table repr df"
  note h = input_columns_present[OF assms(1)]
  have hc: "has_column ?out c" if "has_column df c \<or> c \<in> set derived_columns" for c
    using that by (auto simp: has_column_cleaned)
  note r = assms(2)[unfolded reextracts_iff]
  have 1: "total_2_1 ?out = ?out"
    unfolding total_2_1_def using h by (intro setcol_same hc) (simp_all add: cleaned_price spec_clean_idem)
  have 2: "total_2_2 ?out = ?out"
    unfolding total_2_2_def using h by (intro setcol_same hc) (simp_all add: cleaned_mrp spec_clean_idem)
  have 3: "total_2_3 ?out = ?out"
    unfolding total_2_3_def using h
    by (intro setcol_same hc)
       (simp_all add: cleaned_price cleaned_mrp cleaned_discount discount_backfill_idem)
  have 4: "total_2_4 repr ?out = ?out"
    unfolding total_2_4_def using h r by (intro setcol_same hc) simp_all
  have 5: "total_2_5 repr ?out = ?out"
    unfolding total_2_5_def using h r by (intro setcol_same hc) simp_all
  have 6: "total_2_6 repr ?out = ?out"
    unfolding total_2_6_def using h r by (intro setcol_same hc) simp_all
  have 7: "total_2_7 ?out = ?out"
    unfolding total_2_7_def using h
    by (intro setcol_same hc) (simp_all add: cleaned_brand cleaned_product_name brand_backfill_idem)
  have 8: "total_2_8 ?out = ?out"
  proof -
    have a: "setcol ?out ''price_mrp_ratio'' (price_mrp_ratio (col ?out ''price'') (col ?out ''mrp'')) = ?out"
      by (intro setcol_same hc) (simp_all add: derived_columns_def cleaned_price cleaned_mrp cleaned_ratio)
    have b: "setcol ?out ''suspicious_pricing''
         (suspicious_pricing (price_mrp_ratio (col ?out ''price'') (col ?out ''mrp''))) = ?out"
      by (intro setcol_same hc)
         (simp_all add: derived_columns_def cleaned_price cleaned_mrp cleaned_suspicious)
    have c: "setcol ?out ''has_review'' (has_review (col ?out ''review_text'')) = ?out"
      by (intro setcol_same hc)
         (simp_all add: derived_columns_def cleaned_review_text cleaned_has_review)
    have d: "setcol ?out ''rating_quality_score''
         (rating_quality_score (col ?out ''product_rating'') (col ?out ''num_ratings'')) = ?out"
      by (intro setcol_same hc)
         (simp_all add: derived_columns_def cleaned_product_rating cleaned_num_ratings cleaned_score)
    show ?thesis unfolding total_2_8_def by (simp only: a b c d)
  qed
  have 9: "total_2_9 ?out = ?out"
  proof -
    have a: "setcol ?out ''platform'' (fillna (Str ''Unknown'') (col ?out ''platform'')) = ?out"
      using h by (intro setcol_same hc) (simp_all add: cleaned_platform fillna_idem)
    have b: "setcol ?out ''seller_name'' (fillna (Str ''Unknown'') (col ?out ''seller_name'')) = ?out"
      using h by (intro setcol_same hc) (simp_all add: cleaned_seller fillna_idem)
    show ?thesis unfolding total_2_9_def by (simp only: a b)
  qed
  have "cleaned_table repr ?out =
        total_2_9 (total_2_8 (total_2_7 (total_2_6 repr (total_2_5 repr (total_2_4 repr
          (total_2_3 (total_2_2 (total_2_1 ?out))))))))"
    by (simp only: cleaned_table_def[of repr ?out])
  then show ?thesis by (simp only: 1 2 3 4 5 6 7 8 9)
qed

lemma has_columns_cleaned:
  "has_columns df input_columns \<Longrightarrow> has_columns (cleaned_table repr df) input_columns"
  by (simp add: has_columns_def input_columns_def has_column_cleaned)

lemma rerun_changes:
  assumes "has_columns df input_columns"
    "cleaned_table repr (cleaned_table repr df) = cleaned_table repr df"
  shows "reextracts repr (cleaned_table repr df)"
proof -
  let ?out = "cleaned_table repr df"
  have "col (cleaned_table repr ?out) c = col ?out c" for c using assms(2) by simp
  from this[of "''product_rating''"] this[of "''num_ratings''"] this[of "''review_rating''"]
  show ?thesis
    unfolding reextracts_iff
    by (simp add: cleaned_product_rating[of repr ?out] cleaned_num_ratings[of repr ?out]
        cleaned_review_rating[of repr ?out])
qed

text \<open>
  Claim C6, as amended. When the pass has returned a table, running the pass on that
  table returns it unchanged exactly when the table is stable under re-extraction: each
  cleaned rating and rating count, printed by \<^verbatim>\<open>str\<close>, is read back as the same number.
  The cleaning of price and mrp, both backfills, the derived columns and the defaults
  never change anything on the second run.
\<close>

theorem rerun_unchanged:
  assumes "preprocess_data repr df = Inr out"
  shows "preprocess_data repr out = Inr out \<longleftrightarrow> reextracts repr out"
proof -
  have h: "has_columns df input_columns" by (rule preprocess_needs_columns[OF assms])
  have out: "out = cleaned_table repr df" using assms preprocess_total[OF h, of repr] by simp
  have h': "has_columns out input_columns" unfolding out by (rule has_columns_cleaned[OF h])
  have "preprocess_data repr out = Inr (cleaned_table repr out)" by (rule preprocess_total[OF h'])
  then show ?thesis
    unfolding out using cleaned_fixed[OF h, of repr] rerun_changes[OF h, of repr] by auto
qed

lemma rating_samples:
  "spec_rating repr (Str ''4.5 out of 5 stars'') = Num (Fin (9 / 2))"
  "spec_rating repr (Str ''9'') = Num (Fin (9 / 2))"
  "spec_rating repr (Str ''95'') = NA"
  "spec_rating repr (Str ''4'') = Num (Fin 4)"
  "spec_rating repr (Str ''0.00001'') = Num (Fin (1 / 100000))"
  "spec_rating repr NA = NA"
  by (simp_all add: spec_rating_def first_numeral_def is_digit_def
        numeral_value_def digits_val_def digit_val_def rescale_def Let_def)

lemma count_samples:
  "spec_count repr (Str ''12,345'') = Num (Fin 12345)"
  "spec_count repr (Str ''-1,000'') = Num (Fin 1000)"
  "spec_count repr (Str ''no data'') = NA"
  "spec_count repr (Str ''7'') = Num (Fin 7)"
  "spec_count repr NA = NA"
  by (simp_all add: spec_count_def first_digit_run_def is_digit_def
        digits_val_def digit_val_def Let_def)

lemma reprinted_samples:
  "spec_rating py_repr_sample (Num (Fin (9 / 2))) = Num (Fin (9 / 2))"
  "spec_rating py_repr_sample (Num (Fin 4)) = Num (Fin 4)"
  "spec_rating py_repr_sample (Num (Fin (1 / 100000))) = Num (Fin 1)"
  "spec_count py_repr_sample (Num (Fin 12345)) = Num (Fin 12345)"
  "spec_count py_repr_sample (Num (Fin 1000)) = Num (Fin 1000)"
  "spec_count py_repr_sample (Num (Fin 7)) = Num (Fin 7)"
  by (simp_all add: spec_rating_def spec_count_def py_repr_sample_def first_numeral_def
        first_digit_run_def is_digit_def numeral_value_def digits_val_def digit_val_def
        rescale_def Let_def)

lemma example_reextracts: "reextracts py_repr_sample (cleaned_table py_repr_sample example_table)"
  by (simp add: reextracts_iff cleaned_product_rating cleaned_num_ratings cleaned_review_rating
      example_cols rating_samples count_samples reprinted_samples)

theorem rerun_unchanged_witness:
  "preprocess_data py_repr_sample example_table =
     Inr (cleaned_table py_repr_sample example_table)
   \<and> reextracts py_repr_sample (cleaned_table py_repr_sample example_table)
   \<and> preprocess_data py_repr_sample (cleaned_table py_repr_sample example_table) =
       Inr (cleaned_table py_repr_sample example_table)
   \<and> col (cleaned_table py_repr_sample example_table) ''product_rating'' =
       [Num (Fin (9 / 2)), Num (Fin (9 / 2)), NA, NA, Num (Fin 4)]
   \<and> col (cleaned_table py_repr_sample example_table) ''num_ratings'' =
       [Num (Fin 12345), Num (Fin 1000), NA, NA, Num (Fin 7)]"
  using rerun_unchanged[OF preprocess_total[OF example_has_columns], of py_repr_sample]
    example_reextracts preprocess_total[OF example_has_columns, of py_repr_sample]
  by (simp add: cleaned_product_rating cleaned_num_ratings example_cols rating_samples count_samples)

lemma tiny_has_columns: "has_columns tiny_rating_table input_columns"
  using example_has_columns
  by (simp add: tiny_rating_table_def has_columns_def input_columns_def)

lemma tiny_rating: "col tiny_rating_table ''product_rating'' = [Str ''0.00001'', NA, NA, NA, NA]"
  by (simp add: tiny_rating_table_def)

text \<open>
  Claim C6 as stated fails on the table \<open>tiny_rating_table\<close>, whose first product rating is
  the text \<^verbatim>\<open>0.00001\<close>. The first run cleans it to the float \<^verbatim>\<open>1e-05\<close>. The second run
  prints that float as \<^verbatim>\<open>1e-05\<close> and reads the numeral \<^verbatim>\<open>1\<close> from it, so the rating
  becomes 1.
\<close>

theorem rerun_counterexample:
  "has_columns tiny_rating_table input_columns
   \<and> getcol tiny_rating_table ''product_rating'' = Inr [Str ''0.00001'', NA, NA, NA, NA]
   \<and> result_col (preprocess_data py_repr_sample tiny_rating_table) ''product_rating'' =
       Inr [Num (Fin (1 / 100000)), NA, NA, NA, NA]
   \<and> py_repr_sample (Fin (1 / 100000)) = ''1e-05''
   \<and> result_col (bindE (preprocess_data py_repr_sample tiny_rating_table)
                   (preprocess_data py_repr_sample)) ''product_rating'' =
       Inr [Num (Fin 1), NA, NA, NA, NA]
   \<and> bindE (preprocess_data py_repr_sample tiny_rating_table) (preprocess_data py_repr_sample)
       \<noteq> preprocess_data py_repr_sample tiny_rating_table"
proof -
  let ?out = "cleaned_table py_repr_sample tiny_rating_table"
  have h': "has_columns ?out input_columns" by (rule has_columns_cleaned[OF tiny_has_columns])
  have p: "has_column ?out ''product_rating''" "has_column (cleaned_table py_repr_sample ?out) ''product_rating''"
    by (simp_all add: has_column_cleaned)
  have g: "getcol tiny_rating_table ''product_rating'' = Inr [Str ''0.00001'', NA, NA, NA, NA]"
    by (simp add: getcol_if tiny_rating has_column_def tiny_rating_table_def)
  have 1: "result_col (preprocess_data py_repr_sample tiny_rating_table) ''product_rating'' =
       Inr [Num (Fin (1 / 100000)), NA, NA, NA, NA]"
    by (simp add: result_col_cleaned[OF tiny_has_columns p(1)] cleaned_product_rating tiny_rating
        rating_samples)
  have 2: "result_col (bindE (preprocess_data py_repr_sample tiny_rating_table)
                   (preprocess_data py_repr_sample)) ''product_rating'' =
       Inr [Num (Fin 1), NA, NA, NA, NA]"
    by (simp add: preprocess_total[OF tiny_has_columns] result_col_cleaned[OF h' p(2)]
        cleaned_product_rating tiny_rating rating_samples reprinted_samples)
  have 3: "bindE (preprocess_data py_repr_sample tiny_rating_table) (preprocess_data py_repr_sample)
       \<noteq> preprocess_data py_repr_sample tiny_rating_table"
  proof
    assume "bindE (preprocess_data py_repr_sample tiny_rating_table) (preprocess_data py_repr_sample)
       = preprocess_data py_repr_sample tiny_rating_table"
    then have "Inr [Num (Fin 1), NA, NA, NA, NA] = Inr [Num (Fin (1 / 100000)), NA, NA, NA, NA]"
      using 1 2 by simp
    then show False by simp
  qed
  show ?thesis using tiny_has_columns g 1 2 3 by (simp add: py_repr_sample_def)
qed

end
